theory Spec2Isabelle
  imports Complex_Main
begin

section \<open>Values, errors and the filter graph\<close>

text \<open>
  The program is one Python function, \<open>create_boomerang\<close>, which checks its parameters,
  assembles an ffmpeg-python filter graph, picks a video codec and hands the graph to
  the media engine. Console messages and the creation of the output directory are not
  part of the model.
\<close>

datatype error =
    ValueError string
  | KeyError string
  | ZeroDivisionError
  | FileNotFoundError
  | TimeoutExpired
  | OtherException string
  | FfmpegError

text \<open>
  A Python float is a finite number, one of the two infinities, or NaN; \<open>float\<close>, the
  type of the command line's numeric options, reads all of them (\<open>nan\<close>, \<open>inf\<close>,
  \<open>-inf\<close>). A finite float is taken as the real number it stands for: comparisons of
  floats are exact, and the two arithmetic expressions of the source
  (\<open>duration - fade_duration\<close> and \<open>1/speed\<close>) are taken without rounding. The two zeros
  are one number.
\<close>

datatype pyfloat = Fin real | PosInf | NegInf | NaN

text \<open>The comparisons of Python: each is false as soon as one side is NaN, but \<open>!=\<close>.\<close>

fun py_lt :: "pyfloat \<Rightarrow> pyfloat \<Rightarrow> bool" where
  "py_lt NaN y = False"
| "py_lt x NaN = False"
| "py_lt (Fin a) (Fin b) = (a < b)"
| "py_lt NegInf NegInf = False"
| "py_lt NegInf y = True"
| "py_lt x NegInf = False"
| "py_lt PosInf y = False"
| "py_lt x PosInf = True"

definition py_eq :: "pyfloat \<Rightarrow> pyfloat \<Rightarrow> bool" where
  "py_eq x y = (x \<noteq> NaN \<and> y \<noteq> NaN \<and> x = y)"

definition py_ne :: "pyfloat \<Rightarrow> pyfloat \<Rightarrow> bool" where
  "py_ne x y = (\<not> py_eq x y)"

definition py_le :: "pyfloat \<Rightarrow> pyfloat \<Rightarrow> bool" where
  "py_le x y = (py_lt x y \<or> py_eq x y)"

definition py_gt :: "pyfloat \<Rightarrow> pyfloat \<Rightarrow> bool" where
  "py_gt x y = py_lt y x"

definition py_ge :: "pyfloat \<Rightarrow> pyfloat \<Rightarrow> bool" where
  "py_ge x y = py_le y x"

text \<open>Subtraction: NaN when a side is NaN or when equal infinities meet.\<close>

fun py_sub :: "pyfloat \<Rightarrow> pyfloat \<Rightarrow> pyfloat" where
  "py_sub NaN y = NaN"
| "py_sub x NaN = NaN"
| "py_sub (Fin a) (Fin b) = Fin (a - b)"
| "py_sub PosInf PosInf = NaN"
| "py_sub NegInf NegInf = NaN"
| "py_sub PosInf y = PosInf"
| "py_sub NegInf y = NegInf"
| "py_sub x PosInf = NegInf"
| "py_sub x NegInf = PosInf"

text \<open>
  Division: a zero divisor raises \<open>ZeroDivisionError\<close>, whatever the dividend; a finite
  number over an infinity is zero; an infinity over an infinity is NaN.
\<close>

fun py_truediv :: "pyfloat \<Rightarrow> pyfloat \<Rightarrow> error + pyfloat" where
  "py_truediv x (Fin b) =
     (if b = 0 then Inl ZeroDivisionError
      else Inr (case x of
                  Fin a \<Rightarrow> Fin (a / b)
                | PosInf \<Rightarrow> (if b > 0 then PosInf else NegInf)
                | NegInf \<Rightarrow> (if b > 0 then NegInf else PosInf)
                | NaN \<Rightarrow> NaN))"
| "py_truediv x NaN = Inr NaN"
| "py_truediv NaN y = Inr NaN"
| "py_truediv (Fin a) y = Inr (Fin 0)"
| "py_truediv x y = Inr NaN"

text \<open>
  Argument values handed to ffmpeg-python. \<open>PtsExpr x\<close> stands for the f-string
  \<open>f'{x}*PTS'\<close> of the source: the text of the float \<open>x\<close> followed by \<open>*PTS\<close>.
\<close>

datatype pyval =
    PyStr string
  | PyInt int
  | PyFloat pyfloat
  | PyNone
  | PtsExpr pyfloat

type_synonym kwargs = "(string \<times> pyval) list"

text \<open>
  A stream of the filter graph, as the calls of the source build it:
  \<open>Input f kw\<close> is \<open>ffmpeg.input(f, **kw)\<close>, \<open>Select s ''v''\<close> is \<open>s.video\<close> and
  \<open>Select s ''a''\<close> is \<open>s.audio\<close>, \<open>Filter ss name args kw\<close> is
  \<open>ffmpeg.filter(ss, name, *args, **kw)\<close> (for one stream, \<open>s.filter(name, *args, **kw)\<close>),
  and \<open>Concat ss kw\<close> is \<open>ffmpeg.concat(*ss, **kw)\<close>.
\<close>

datatype stream =
    Input string kwargs
  | Select stream string
  | Filter "stream list" string "pyval list" kwargs
  | Concat "stream list" kwargs

text \<open>
  Every filter application of a stream, outermost first, with its name and arguments;
  a \<open>Concat\<close> counts under the name \<open>concat\<close>.
\<close>

fun applied_filters :: "stream \<Rightarrow> (string \<times> pyval list \<times> kwargs) list" where
  "applied_filters (Input f kw) = []"
| "applied_filters (Select s l) = applied_filters s"
| "applied_filters (Filter ss name args kw) =
     (name, args, kw) # concat (map applied_filters ss)"
| "applied_filters (Concat ss kw) =
     (''concat'', [], kw) # concat (map applied_filters ss)"

definition filters_named :: "string \<Rightarrow> stream \<Rightarrow> (string \<times> pyval list \<times> kwargs) list" where
  "filters_named name s = filter (\<lambda>f. fst f = name) (applied_filters s)"

text \<open>Assignment to a dictionary key: the value is replaced, or the key is added last.\<close>

fun setitem :: "kwargs \<Rightarrow> string \<Rightarrow> pyval \<Rightarrow> kwargs" where
  "setitem [] k v = [(k, v)]"
| "setitem ((k', v') # kw) k v =
     (if k' = k then (k, v) # kw else (k', v') # setitem kw k v)"

section \<open>The request\<close>

text \<open>The parameters of \<open>create_boomerang\<close>, in the order of its signature.\<close>

record request =
  input_file :: string
  output_file :: string
  start_time :: pyfloat
  duration :: pyfloat
  speed :: pyfloat
  crf :: int
  preset :: string
  fade_duration :: pyfloat
  include_audio :: bool
  use_gpu :: bool
  quiet :: bool

text \<open>The request that \<open>main\<close> builds when only the two file names are given.\<close>

definition default_request :: "string \<Rightarrow> string \<Rightarrow> request" where
  "default_request inp out =
     \<lparr>input_file = inp, output_file = out, start_time = Fin 0, duration = Fin 3,
      speed = Fin 1, crf = 23, preset = ''medium'', fade_duration = Fin 0,
      include_audio = False,
      use_gpu = False, quiet = False\<rparr>"

section \<open>Input validation\<close>

text \<open>The six errors of the validation, under the names the specification gives them.\<close>

abbreviation NegativeStartTime :: error where
  "NegativeStartTime \<equiv> ValueError ''Start time cannot be negative''"

abbreviation NonPositiveDuration :: error where
  "NonPositiveDuration \<equiv> ValueError ''Duration must be positive''"

abbreviation NonPositiveSpeed :: error where
  "NonPositiveSpeed \<equiv> ValueError ''Speed must be positive''"

abbreviation NegativeFadeDuration :: error where
  "NegativeFadeDuration \<equiv> ValueError ''Fade duration cannot be negative''"

abbreviation FadeExceedsDuration :: error where
  "FadeExceedsDuration \<equiv> ValueError ''Fade duration must be less than total duration''"

abbreviation CrfOutOfRange :: error where
  "CrfOutOfRange \<equiv> ValueError ''CRF must be between 0 and 51''"

text \<open>
  The checks at the head of \<open>create_boomerang\<close>: each raises, or falls through to the
  next; after the last one the parameters are as they were.
\<close>

definition validate :: "request \<Rightarrow> error + request" where
  "validate r =
     (if py_lt (start_time r) (Fin 0)
        then Inl (ValueError ''Start time cannot be negative'')
      else if py_le (duration r) (Fin 0) then Inl (ValueError ''Duration must be positive'')
      else if py_le (speed r) (Fin 0) then Inl (ValueError ''Speed must be positive'')
      else if py_lt (fade_duration r) (Fin 0)
        then Inl (ValueError ''Fade duration cannot be negative'')
      else if py_ge (fade_duration r) (duration r)
        then Inl (ValueError ''Fade duration must be less than total duration'')
      else if crf r < 0 \<or> crf r > 51 then Inl (ValueError ''CRF must be between 0 and 51'')
      else Inr r)"

text \<open>
  The same checks as the specification lists them: each is a condition that must hold
  and the error reported when it does not; the first condition that fails decides.
\<close>

definition spec_checks :: "((request \<Rightarrow> bool) \<times> error) list" where
  "spec_checks =
     [(\<lambda>r. py_ge (start_time r) (Fin 0), NegativeStartTime),
      (\<lambda>r. py_gt (duration r) (Fin 0), NonPositiveDuration),
      (\<lambda>r. py_gt (speed r) (Fin 0), NonPositiveSpeed),
      (\<lambda>r. py_ge (fade_duration r) (Fin 0), NegativeFadeDuration),
      (\<lambda>r. py_lt (fade_duration r) (duration r), FadeExceedsDuration),
      (\<lambda>r. 0 \<le> crf r \<and> crf r \<le> 51, CrfOutOfRange)]"

fun first_violation :: "((request \<Rightarrow> bool) \<times> error) list \<Rightarrow> request \<Rightarrow> error option" where
  "first_violation [] r = None"
| "first_violation ((ok, e) # cs) r = (if ok r then first_violation cs r else Some e)"

definition spec_validate :: "request \<Rightarrow> error + request" where
  "spec_validate r = (case first_violation spec_checks r of None \<Rightarrow> Inr r | Some e \<Rightarrow> Inl e)"

section \<open>Video and audio processing\<close>

definition input_stream :: "request \<Rightarrow> stream" where
  "input_stream r =
     Input (input_file r) [(''ss'', PyFloat (start_time r)), (''t'', PyFloat (duration r))]"

definition video_stream :: "request \<Rightarrow> stream" where
  "video_stream r = Select (input_stream r) ''v''"

definition forward_video :: "request \<Rightarrow> stream" where
  "forward_video r = video_stream r"

definition reverse_video :: "request \<Rightarrow> stream" where
  "reverse_video r = Filter [video_stream r] ''reverse'' [] []"

text \<open>
  The first value of the variable \<open>final_video\<close>: the two branches joined at the loop
  point, by \<open>xfade\<close> or by \<open>concat\<close>.
\<close>

definition joined_video :: "request \<Rightarrow> stream" where
  "joined_video r =
     (if py_gt (fade_duration r) (Fin 0) \<and> py_gt (duration r) (fade_duration r)
      then Filter [forward_video r, reverse_video r] ''xfade'' []
             [(''transition'', PyStr ''fade''),
              (''duration'', PyFloat (fade_duration r)),
              (''offset'', PyFloat (py_sub (duration r) (fade_duration r)))]
      else Concat [forward_video r, reverse_video r] [])"

text \<open>
  The second value of \<open>final_video\<close>: \<open>setpts\<close> on the joined stream. The division
  \<open>1/speed\<close> raises for a zero speed.
\<close>

definition final_video :: "request \<Rightarrow> error + stream" where
  "final_video r =
     (case py_truediv (Fin 1) (speed r) of
        Inl e \<Rightarrow> Inl e
      | Inr f \<Rightarrow> Inr (Filter [joined_video r] ''setpts'' [PtsExpr f] []))"

definition audio_stream :: "request \<Rightarrow> stream" where
  "audio_stream r = Select (input_stream r) ''a''"

definition forward_audio :: "request \<Rightarrow> stream" where
  "forward_audio r = audio_stream r"

definition reverse_audio :: "request \<Rightarrow> stream" where
  "reverse_audio r = Filter [audio_stream r] ''areverse'' [] []"

text \<open>The first value of \<open>final_audio\<close>: the audio branches joined by \<open>concat\<close>.\<close>

definition joined_audio :: "request \<Rightarrow> stream" where
  "joined_audio r =
     Concat [forward_audio r, reverse_audio r] [(''v'', PyInt 0), (''a'', PyInt 1)]"

definition final_audio :: "request \<Rightarrow> stream" where
  "final_audio r =
     (if py_ne (speed r) (Fin 1) then Filter [joined_audio r] ''atempo'' [PyFloat (speed r)] []
      else joined_audio r)"

text \<open>
  The streams and options of the output once the video and audio sections have run:
  the list \<open>output_args\<close> and the dictionary \<open>kwargs\<close> of the source.
\<close>

definition graph :: "request \<Rightarrow> error + (stream list \<times> kwargs)" where
  "graph r =
     (case final_video r of
        Inl e \<Rightarrow> Inl e
      | Inr fv \<Rightarrow>
          (let output_args = [fv];
               kw = [(''preset'', PyStr (preset r)), (''crf'', PyInt (crf r)),
                     (''pix_fmt'', PyStr ''yuv420p'')]
           in if include_audio r then Inr (output_args @ [final_audio r], kw)
              else Inr (output_args, setitem kw ''an'' PyNone)))"

section \<open>Hardware acceleration\<close>

definition HW_ACCEL_CODECS :: "(string \<times> string) list" where
  "HW_ACCEL_CODECS =
     [(''nvidia'', ''h264_nvenc''), (''apple'', ''h264_videotoolbox''), (''intel'', ''h264_qsv'')]"

text \<open>\<open>HW_ACCEL_CODECS[k]\<close>: the entry, or a \<open>KeyError\<close>.\<close>

definition hw_codec :: "string \<Rightarrow> error + string option" where
  "hw_codec k =
     (case map_of HW_ACCEL_CODECS k of None \<Rightarrow> Inl (KeyError k) | Some c \<Rightarrow> Inr (Some c))"

text \<open>
  A codec counts as hardware accelerated when it is one of the encoders of the table
  \<open>HW_ACCEL_CODECS\<close>.
\<close>

definition is_hardware_accelerated :: "string \<Rightarrow> bool" where
  "is_hardware_accelerated c = (c \<in> set (map snd HW_ACCEL_CODECS))"

text \<open>
  The host: what \<open>platform.system()\<close> returns, what \<open>subprocess.run\<close> does with a command
  (it completes with a return code, or raises), and whether the engine fails on an
  output. The events record the processes started and the engine runs, in order.
\<close>

record ffmpeg_output =
  streams :: "stream list"
  filename :: string
  options :: kwargs

datatype event = SubprocessRun "string list" | FfmpegRun ffmpeg_output

record host =
  platform_system :: string
  subprocess :: "string list \<Rightarrow> error + int"
  ffmpeg_run :: "ffmpeg_output \<Rightarrow> error option"

definition subprocess_run :: "host \<Rightarrow> string list \<Rightarrow> event list \<Rightarrow> (error + int) \<times> event list" where
  "subprocess_run h cmd tr = (subprocess h cmd, tr @ [SubprocessRun cmd])"

text \<open>
  The value of \<open>codec_to_use\<close> after the branches on the operating system. The Windows
  and the Linux branch are written out twice, as in the source. The handler of each
  catches \<open>FileNotFoundError\<close> and \<open>TimeoutExpired\<close> and nothing else.
\<close>

definition codec_to_use :: "host \<Rightarrow> event list \<Rightarrow> (error + string option) \<times> event list" where
  "codec_to_use h tr =
     (if platform_system h = ''Darwin'' then (hw_codec ''apple'', tr)
      else if platform_system h = ''Windows'' then
        (case subprocess_run h [''nvidia-smi''] tr of
           (Inr returncode, tr') \<Rightarrow>
             (if returncode = 0 then (hw_codec ''nvidia'', tr')
              else (hw_codec ''intel'', tr'))
         | (Inl e, tr') \<Rightarrow>
             (if e = FileNotFoundError \<or> e = TimeoutExpired then (hw_codec ''intel'', tr')
              else (Inl e, tr')))
      else if platform_system h = ''Linux'' then
        (case subprocess_run h [''nvidia-smi''] tr of
           (Inr returncode, tr') \<Rightarrow>
             (if returncode = 0 then (hw_codec ''nvidia'', tr')
              else (hw_codec ''intel'', tr'))
         | (Inl e, tr') \<Rightarrow>
             (if e = FileNotFoundError \<or> e = TimeoutExpired then (hw_codec ''intel'', tr')
              else (Inl e, tr')))
      else (Inr None, tr))"

text \<open>
  The value stored under \<open>vcodec\<close>: with \<open>use_gpu\<close>, the codec found if there is one
  (\<open>None\<close> and the empty string are false in Python), and \<open>libx264\<close> in every other case.
\<close>

definition vcodec :: "host \<Rightarrow> bool \<Rightarrow> event list \<Rightarrow> (error + string) \<times> event list" where
  "vcodec h gpu tr =
     (if gpu then
        (case codec_to_use h tr of
           (Inl e, tr') \<Rightarrow> (Inl e, tr')
         | (Inr None, tr') \<Rightarrow> (Inr ''libx264'', tr')
         | (Inr (Some c), tr') \<Rightarrow> (if c \<noteq> [] then (Inr c, tr') else (Inr ''libx264'', tr')))
      else (Inr ''libx264'', tr))"

section \<open>The whole function\<close>

text \<open>
  The output handed to the engine: the streams, the output file and the options with
  the codec added last.
\<close>

definition output_stream :: "host \<Rightarrow> request \<Rightarrow> event list \<Rightarrow> (error + ffmpeg_output) \<times> event list" where
  "output_stream h r tr =
     (case graph r of
        Inl e \<Rightarrow> (Inl e, tr)
      | Inr (output_args, kw) \<Rightarrow>
          (case vcodec h (use_gpu r) tr of
             (Inl e, tr') \<Rightarrow> (Inl e, tr')
           | (Inr c, tr') \<Rightarrow>
               (Inr \<lparr>streams = output_args, filename = output_file r,
                     options = setitem kw ''vcodec'' (PyStr c)\<rparr>, tr')))"

text \<open>
  How a call ends: a validation error leaves the function as the exception it is (the
  checks stand before the \<open>try\<close>); every exception inside the \<open>try\<close> ends the process with
  status 1; otherwise the output has been written.
\<close>

datatype outcome = Raised error | SysExit int | Saved ffmpeg_output

definition create_boomerang :: "host \<Rightarrow> request \<Rightarrow> outcome \<times> event list" where
  "create_boomerang h r =
     (case validate r of
        Inl e \<Rightarrow> (Raised e, [])
      | Inr r' \<Rightarrow>
          (case output_stream h r' [] of
             (Inl e, tr) \<Rightarrow> (SysExit 1, tr)
           | (Inr out, tr) \<Rightarrow>
               (case ffmpeg_run h out of
                  Some e \<Rightarrow> (SysExit 1, tr @ [FfmpegRun out])
                | None \<Rightarrow> (Saved out, tr @ [FfmpegRun out]))))"

section \<open>Properties of the floats, the validation and the graph\<close>

lemmas py_cmp_defs = py_le_def py_ge_def py_gt_def py_eq_def py_ne_def

lemma py_total:
  "x \<noteq> NaN \<Longrightarrow> y \<noteq> NaN \<Longrightarrow> py_lt x y \<or> py_eq x y \<or> py_lt y x"
  by (cases x; cases y) (auto simp: py_eq_def)

lemma py_lt_asym: "py_lt x y \<Longrightarrow> \<not> py_lt y x \<and> \<not> py_eq x y"
  by (cases x; cases y) (auto simp: py_eq_def)


lemma fade_not_negative:
  assumes "py_ge f d" and "\<not> py_le d (Fin 0)"
  shows "\<not> py_lt f (Fin 0)"
  using assms by (cases f; cases d) (auto simp: py_cmp_defs)

lemma validate_Inr_iff:
  "validate r = Inr r' \<longleftrightarrow>
     r' = r \<and> \<not> py_lt (start_time r) (Fin 0) \<and> \<not> py_le (duration r) (Fin 0) \<and>
     \<not> py_le (speed r) (Fin 0) \<and> \<not> py_lt (fade_duration r) (Fin 0) \<and>
     \<not> py_ge (fade_duration r) (duration r) \<and> 0 \<le> crf r \<and> crf r \<le> 51"
  by (auto simp: validate_def)

text \<open>
  On requests whose four float fields are numbers or infinities, the validation of the
  source is the first-violation reading of the specification.
\<close>

lemma validate_spec_on_numbers:
  assumes "start_time r \<noteq> NaN" "duration r \<noteq> NaN" "speed r \<noteq> NaN" "fade_duration r \<noteq> NaN"
  shows "validate r = spec_validate r"
proof -
  have z: "Fin 0 \<noteq> NaN" by simp
  have a: "py_lt (start_time r) (Fin 0) \<longleftrightarrow> \<not> py_ge (start_time r) (Fin 0)"
    using py_total [OF assms(1) z] py_lt_asym [of "start_time r" "Fin 0"]
      py_lt_asym [of "Fin 0" "start_time r"]
    by (auto simp: py_cmp_defs)
  have b: "py_le (duration r) (Fin 0) \<longleftrightarrow> \<not> py_gt (duration r) (Fin 0)"
    using py_total [OF assms(2) z] py_lt_asym [of "duration r" "Fin 0"]
      py_lt_asym [of "Fin 0" "duration r"]
    by (auto simp: py_cmp_defs)
  have c: "py_le (speed r) (Fin 0) \<longleftrightarrow> \<not> py_gt (speed r) (Fin 0)"
    using py_total [OF assms(3) z] py_lt_asym [of "speed r" "Fin 0"]
      py_lt_asym [of "Fin 0" "speed r"]
    by (auto simp: py_cmp_defs)
  have d: "py_lt (fade_duration r) (Fin 0) \<longleftrightarrow> \<not> py_ge (fade_duration r) (Fin 0)"
    using py_total [OF assms(4) z] py_lt_asym [of "fade_duration r" "Fin 0"]
      py_lt_asym [of "Fin 0" "fade_duration r"]
    by (auto simp: py_cmp_defs)
  have e: "py_ge (fade_duration r) (duration r) \<longleftrightarrow> \<not> py_lt (fade_duration r) (duration r)"
    using py_total [OF assms(4) assms(2)] py_lt_asym [of "fade_duration r" "duration r"]
      py_lt_asym [of "duration r" "fade_duration r"]
    by (auto simp: py_cmp_defs)
  show ?thesis
    unfolding validate_def spec_validate_def spec_checks_def
    by (simp add: a b c d e not_less not_le)
qed

text \<open>
  A request that passes the validation has a speed that \<open>1\<close> can be divided by; with a
  duration that is not NaN, a positive fade is below the duration.
\<close>

lemma validated_speed:
  assumes "validate r = Inr r"
  shows "\<exists>f. py_truediv (Fin 1) (speed r) = Inr f"
proof -
  from assms have "\<not> py_le (speed r) (Fin 0)" by (simp add: validate_Inr_iff)
  then show ?thesis by (cases "speed r") (auto simp: py_cmp_defs)
qed


lemma graph_valid:
  assumes "validate r = Inr r" and "py_truediv (Fin 1) (speed r) = Inr f"
  shows "graph r =
     Inr (if include_audio r
          then ([Filter [joined_video r] ''setpts'' [PtsExpr f] [], final_audio r],
                [(''preset'', PyStr (preset r)), (''crf'', PyInt (crf r)),
                 (''pix_fmt'', PyStr ''yuv420p'')])
          else ([Filter [joined_video r] ''setpts'' [PtsExpr f] []],
                [(''preset'', PyStr (preset r)), (''crf'', PyInt (crf r)),
                 (''pix_fmt'', PyStr ''yuv420p''), (''an'', PyNone)]))"
  using assms(2) by (simp add: graph_def final_video_def)


lemma hw_codec_simps:
  "hw_codec ''apple'' = Inr (Some ''h264_videotoolbox'')"
  "hw_codec ''nvidia'' = Inr (Some ''h264_nvenc'')"
  "hw_codec ''intel'' = Inr (Some ''h264_qsv'')"
  by (simp_all add: hw_codec_def HW_ACCEL_CODECS_def)

text \<open>
  On Windows and on Linux the codec depends on the outcome of \<open>nvidia-smi\<close> alone, and
  the process is started once; an exception that the handler does not name leaves the
  selection as it is.
\<close>

lemma vcodec_probe:
  assumes "platform_system h = ''Windows'' \<or> platform_system h = ''Linux''"
  shows "vcodec h True tr =
     ((case subprocess h [''nvidia-smi''] of
         Inr returncode \<Rightarrow> if returncode = 0 then Inr ''h264_nvenc'' else Inr ''h264_qsv''
       | Inl e \<Rightarrow> if e = FileNotFoundError \<or> e = TimeoutExpired then Inr ''h264_qsv'' else Inl e),
      tr @ [SubprocessRun [''nvidia-smi'']])"
  using assms
  by (auto simp: vcodec_def codec_to_use_def subprocess_run_def hw_codec_simps
      split: sum.splits)




text \<open>
  C2. The checks of the source are the negations of the conditions of the
  specification, and a NaN makes a condition and its negation both false. A request with
  a NaN duration passes the validation although its duration is not positive, where the
  specification reports \<open>NonPositiveDuration\<close>; with a NaN start time and a duration of
  -1 the source reports the duration, where the first violated condition is the one of
  the start time.
\<close>

theorem validate_accepts_nan:
  "validate ((default_request ''in.mp4'' ''out.mp4'')\<lparr>duration := NaN\<rparr>) =
     Inr ((default_request ''in.mp4'' ''out.mp4'')\<lparr>duration := NaN\<rparr>) \<and>
   \<not> py_gt (duration ((default_request ''in.mp4'' ''out.mp4'')\<lparr>duration := NaN\<rparr>)) (Fin 0) \<and>
   spec_validate ((default_request ''in.mp4'' ''out.mp4'')\<lparr>duration := NaN\<rparr>) =
     Inl NonPositiveDuration \<and>
   validate ((default_request ''in.mp4'' ''out.mp4'')\<lparr>start_time := NaN, duration := Fin (- 1)\<rparr>) =
     Inl NonPositiveDuration \<and>
   spec_validate ((default_request ''in.mp4'' ''out.mp4'')\<lparr>start_time := NaN, duration := Fin (- 1)\<rparr>) =
     Inl NegativeStartTime"
  by (simp add: validate_def spec_validate_def spec_checks_def default_request_def py_cmp_defs)

text \<open>
  C3, as amended. With \<open>use_gpu\<close>, the choice of the codec on Windows is the choice on
  Linux, whatever \<open>nvidia-smi\<close> does. On either system a return code of zero selects
  \<open>h264_nvenc\<close>; a return code other than zero, a missing binary and a timeout select
  \<open>h264_qsv\<close>.
\<close>

theorem windows_like_linux:
  "vcodec (h\<lparr>platform_system := ''Windows''\<rparr>) True tr =
     vcodec (h\<lparr>platform_system := ''Linux''\<rparr>) True tr \<and>
   (platform_system h = ''Windows'' \<or> platform_system h = ''Linux'' \<longrightarrow>
      (subprocess h [''nvidia-smi''] = Inr 0 \<longrightarrow>
         fst (vcodec h True tr) = Inr ''h264_nvenc'') \<and>
      ((\<exists>returncode. returncode \<noteq> 0 \<and> subprocess h [''nvidia-smi''] = Inr returncode) \<or>
       subprocess h [''nvidia-smi''] = Inl FileNotFoundError \<or>
       subprocess h [''nvidia-smi''] = Inl TimeoutExpired \<longrightarrow>
         fst (vcodec h True tr) = Inr ''h264_qsv''))"
proof -
  have a: "vcodec (h\<lparr>platform_system := ''Windows''\<rparr>) True tr =
     vcodec (h\<lparr>platform_system := ''Linux''\<rparr>) True tr"
    by (simp add: vcodec_probe)
  have b: "platform_system h = ''Windows'' \<or> platform_system h = ''Linux'' \<longrightarrow>
      (subprocess h [''nvidia-smi''] = Inr 0 \<longrightarrow>
         fst (vcodec h True tr) = Inr ''h264_nvenc'') \<and>
      ((\<exists>returncode. returncode \<noteq> 0 \<and> subprocess h [''nvidia-smi''] = Inr returncode) \<or>
       subprocess h [''nvidia-smi''] = Inl FileNotFoundError \<or>
       subprocess h [''nvidia-smi''] = Inl TimeoutExpired \<longrightarrow>
         fst (vcodec h True tr) = Inr ''h264_qsv'')"
    by (auto simp: vcodec_probe)
  from a b show ?thesis by blast
qed

text \<open>
  Return code zero, a timeout and a non-zero return code on concrete hosts.
\<close>

theorem windows_like_linux_witness:
  "fst (vcodec \<lparr>platform_system = ''Windows'', subprocess = (\<lambda>cmd. Inr 0),
                 ffmpeg_run = (\<lambda>out. None)\<rparr> True []) = Inr ''h264_nvenc'' \<and>
   fst (vcodec \<lparr>platform_system = ''Windows'', subprocess = (\<lambda>cmd. Inl TimeoutExpired),
                 ffmpeg_run = (\<lambda>out. None)\<rparr> True []) = Inr ''h264_qsv'' \<and>
   fst (vcodec \<lparr>platform_system = ''Linux'', subprocess = (\<lambda>cmd. Inr 9),
                 ffmpeg_run = (\<lambda>out. None)\<rparr> True []) = Inr ''h264_qsv''"
  using
    windows_like_linux [of "\<lparr>platform_system = ''Windows'', subprocess = (\<lambda>cmd. Inr 0),
                 ffmpeg_run = (\<lambda>out. None)\<rparr>" "[]", THEN conjunct2]
    windows_like_linux [of "\<lparr>platform_system = ''Windows'', subprocess = (\<lambda>cmd. Inl TimeoutExpired),
                 ffmpeg_run = (\<lambda>out. None)\<rparr>" "[]", THEN conjunct2]
    windows_like_linux [of "\<lparr>platform_system = ''Linux'', subprocess = (\<lambda>cmd. Inr 9),
                 ffmpeg_run = (\<lambda>out. None)\<rparr>" "[]", THEN conjunct2]
  by simp

text \<open>
  C3, as stated, fails: when the call of \<open>nvidia-smi\<close> fails with an exception that is
  neither \<open>FileNotFoundError\<close> nor \<open>TimeoutExpired\<close>, no codec is chosen.
\<close>

theorem probe_other_exception_counterexample:
  "fst (vcodec \<lparr>platform_system = ''Linux'',
                 subprocess = (\<lambda>cmd. Inl (OtherException ''PermissionError'')),
                 ffmpeg_run = (\<lambda>out. None)\<rparr> True []) =
     Inl (OtherException ''PermissionError'') \<and>
   fst (vcodec \<lparr>platform_system = ''Linux'',
                 subprocess = (\<lambda>cmd. Inl (OtherException ''PermissionError'')),
                 ffmpeg_run = (\<lambda>out. None)\<rparr> True []) \<noteq> Inr ''h264_qsv''"
  by (simp add: vcodec_def codec_to_use_def subprocess_run_def)

text \<open>
  C4, as amended. On Windows and on Linux, each of the three failure modes of the probe
  (the binary is not found, the return code is not zero, the call times out) ends with
  the codec \<open>h264_qsv\<close> and no error: the result is the one obtained when \<open>nvidia-smi\<close>
  reports that there is no device, the process was started once, and the selection
  raises nothing whether \<open>use_gpu\<close> is set or not.
\<close>

theorem probe_failure_absorbed:
  assumes "platform_system h = ''Windows'' \<or> platform_system h = ''Linux''"
    and "subprocess h [''nvidia-smi''] = Inl FileNotFoundError \<or>
         subprocess h [''nvidia-smi''] = Inl TimeoutExpired \<or>
         (\<exists>returncode. returncode \<noteq> 0 \<and> subprocess h [''nvidia-smi''] = Inr returncode)"
  shows "vcodec h True tr = (Inr ''h264_qsv'', tr @ [SubprocessRun [''nvidia-smi'']]) \<and>
         vcodec h True tr = vcodec (h\<lparr>subprocess := (\<lambda>cmd. Inr 1)\<rparr>) True tr \<and>
         \<not> isl (fst (vcodec h gpu tr))"
proof -
  have a: "vcodec h True tr = (Inr ''h264_qsv'', tr @ [SubprocessRun [''nvidia-smi'']])"
    using assms by (auto simp: vcodec_probe)
  have b: "vcodec (h\<lparr>subprocess := (\<lambda>cmd. Inr 1)\<rparr>) True tr =
     (Inr ''h264_qsv'', tr @ [SubprocessRun [''nvidia-smi'']])"
    using assms(1) by (auto simp: vcodec_probe)
  have c: "\<not> isl (fst (vcodec h gpu tr))"
  proof (cases gpu)
    case True
    with a show ?thesis by simp
  next
    case False
    then show ?thesis by (simp add: vcodec_def)
  qed
  from a b c show ?thesis by simp
qed

text \<open>
  A host without the \<open>nvidia-smi\<close> binary.
\<close>

theorem probe_failure_absorbed_witness:
  "vcodec \<lparr>platform_system = ''Linux'', subprocess = (\<lambda>cmd. Inl FileNotFoundError),
            ffmpeg_run = (\<lambda>out. None)\<rparr> True [] =
     (Inr ''h264_qsv'', [SubprocessRun [''nvidia-smi'']])"
proof -
  have s: "platform_system \<lparr>platform_system = ''Linux'', subprocess = (\<lambda>cmd. Inl FileNotFoundError),
            ffmpeg_run = (\<lambda>out. None)\<rparr> = ''Windows'' \<or>
     platform_system \<lparr>platform_system = ''Linux'', subprocess = (\<lambda>cmd. Inl FileNotFoundError),
            ffmpeg_run = (\<lambda>out. None)\<rparr> = ''Linux''"
    by simp
  have p: "subprocess \<lparr>platform_system = ''Linux'', subprocess = (\<lambda>cmd. Inl FileNotFoundError),
            ffmpeg_run = (\<lambda>out. None)\<rparr> [''nvidia-smi''] = Inl FileNotFoundError \<or>
     subprocess \<lparr>platform_system = ''Linux'', subprocess = (\<lambda>cmd. Inl FileNotFoundError),
            ffmpeg_run = (\<lambda>out. None)\<rparr> [''nvidia-smi''] = Inl TimeoutExpired \<or>
     (\<exists>returncode. returncode \<noteq> 0 \<and>
        subprocess \<lparr>platform_system = ''Linux'', subprocess = (\<lambda>cmd. Inl FileNotFoundError),
            ffmpeg_run = (\<lambda>out. None)\<rparr> [''nvidia-smi''] = Inr returncode)"
    by simp
  from probe_failure_absorbed [OF s p, of "[]" True] show ?thesis by simp
qed

text \<open>
  C4, as stated, fails: an exception of another class leaves the selection as an
  error, and \<open>create_boomerang\<close> ends with exit status 1 after the probe, with no output.
\<close>

theorem probe_error_propagates_counterexample:
  "vcodec \<lparr>platform_system = ''Windows'',
            subprocess = (\<lambda>cmd. Inl (OtherException ''PermissionError'')),
            ffmpeg_run = (\<lambda>out. None)\<rparr> True [] =
     (Inl (OtherException ''PermissionError''), [SubprocessRun [''nvidia-smi'']]) \<and>
   create_boomerang
     \<lparr>platform_system = ''Windows'',
      subprocess = (\<lambda>cmd. Inl (OtherException ''PermissionError'')),
      ffmpeg_run = (\<lambda>out. None)\<rparr>
     ((default_request ''in.mp4'' ''out.mp4'')\<lparr>use_gpu := True\<rparr>) =
     (SysExit 1, [SubprocessRun [''nvidia-smi'']])"
  by (simp add: vcodec_def codec_to_use_def subprocess_run_def create_boomerang_def
      output_stream_def graph_def final_video_def validate_def default_request_def py_cmp_defs)



text \<open>
  C6, as amended. A request whose fade duration is greater than or equal to its
  duration never passes the validation, and \<open>create_boomerang\<close> ends with the validation
  error before any process is started or any output is built. The error is that of the
  first test that fires, in the order of the source: \<open>NegativeStartTime\<close> when the start
  time is below zero, else \<open>NonPositiveDuration\<close> when the duration is at most zero,
  else \<open>NonPositiveSpeed\<close> when the speed is at most zero, and \<open>FadeExceedsDuration\<close>
  when none of these three tests fires.
\<close>

theorem fade_exceeds_rejected:
  assumes "py_ge (fade_duration r) (duration r)"
  shows "validate r =
           Inl (if py_lt (start_time r) (Fin 0) then NegativeStartTime
                else if py_le (duration r) (Fin 0) then NonPositiveDuration
                else if py_le (speed r) (Fin 0) then NonPositiveSpeed
                else FadeExceedsDuration) \<and>
         (validate r = Inl FadeExceedsDuration \<longleftrightarrow>
            \<not> py_lt (start_time r) (Fin 0) \<and> \<not> py_le (duration r) (Fin 0) \<and>
            \<not> py_le (speed r) (Fin 0)) \<and>
         create_boomerang h r =
           (Raised (if py_lt (start_time r) (Fin 0) then NegativeStartTime
                    else if py_le (duration r) (Fin 0) then NonPositiveDuration
                    else if py_le (speed r) (Fin 0) then NonPositiveSpeed
                    else FadeExceedsDuration), [])"
proof -
  have a: "validate r =
           Inl (if py_lt (start_time r) (Fin 0) then NegativeStartTime
                else if py_le (duration r) (Fin 0) then NonPositiveDuration
                else if py_le (speed r) (Fin 0) then NonPositiveSpeed
                else FadeExceedsDuration)"
    using assms fade_not_negative [OF assms] by (simp add: validate_def)
  have b: "validate r = Inl FadeExceedsDuration \<longleftrightarrow>
            \<not> py_lt (start_time r) (Fin 0) \<and> \<not> py_le (duration r) (Fin 0) \<and>
            \<not> py_le (speed r) (Fin 0)"
    unfolding a by simp
  have c: "create_boomerang h r =
           (Raised (if py_lt (start_time r) (Fin 0) then NegativeStartTime
                    else if py_le (duration r) (Fin 0) then NonPositiveDuration
                    else if py_le (speed r) (Fin 0) then NonPositiveSpeed
                    else FadeExceedsDuration), [])"
    unfolding create_boomerang_def a by simp
  from a b c show ?thesis by blast
qed

text \<open>
  A fade longer than the duration, with a start time that is NaN.
\<close>

theorem fade_exceeds_rejected_witness:
  "py_ge (fade_duration ((default_request ''in.mp4'' ''out.mp4'')\<lparr>start_time := NaN, fade_duration := Fin 5\<rparr>))
     (duration ((default_request ''in.mp4'' ''out.mp4'')\<lparr>start_time := NaN, fade_duration := Fin 5\<rparr>)) \<and>
   validate ((default_request ''in.mp4'' ''out.mp4'')\<lparr>start_time := NaN, fade_duration := Fin 5\<rparr>)
     = Inl FadeExceedsDuration \<and>
   create_boomerang
     \<lparr>platform_system = ''Linux'', subprocess = (\<lambda>cmd. Inr 0), ffmpeg_run = (\<lambda>out. None)\<rparr>
     ((default_request ''in.mp4'' ''out.mp4'')\<lparr>start_time := NaN, fade_duration := Fin 5\<rparr>)
     = (Raised FadeExceedsDuration, [])"
proof -
  have h: "py_ge (fade_duration ((default_request ''in.mp4'' ''out.mp4'')\<lparr>start_time := NaN, fade_duration := Fin 5\<rparr>))
     (duration ((default_request ''in.mp4'' ''out.mp4'')\<lparr>start_time := NaN, fade_duration := Fin 5\<rparr>))"
    by (simp add: default_request_def py_cmp_defs)
  from fade_exceeds_rejected [OF h,
      of "\<lparr>platform_system = ''Linux'', subprocess = (\<lambda>cmd. Inr 0), ffmpeg_run = (\<lambda>out. None)\<rparr>"]
  show ?thesis using h by (simp add: default_request_def py_cmp_defs)
qed

text \<open>
  C6, as stated, fails: with a negative start time and a fade longer than the duration
  the error is the one of the start time.
\<close>

theorem fade_exceeds_counterexample:
  "py_ge (fade_duration ((default_request ''in.mp4'' ''out.mp4'')\<lparr>start_time := Fin (- 1), fade_duration := Fin 5\<rparr>))
     (duration ((default_request ''in.mp4'' ''out.mp4'')\<lparr>start_time := Fin (- 1), fade_duration := Fin 5\<rparr>)) \<and>
   validate ((default_request ''in.mp4'' ''out.mp4'')\<lparr>start_time := Fin (- 1), fade_duration := Fin 5\<rparr>)
     = Inl NegativeStartTime \<and>
   validate ((default_request ''in.mp4'' ''out.mp4'')\<lparr>start_time := Fin (- 1), fade_duration := Fin 5\<rparr>)
     \<noteq> Inl FadeExceedsDuration"
  by (simp add: validate_def default_request_def py_cmp_defs)

text \<open>
  C7. With \<open>use_gpu\<close> on macOS (\<open>platform.system()\<close> returns \<open>Darwin\<close>) the codec is
  \<open>h264_videotoolbox\<close>, an encoder of the hardware table; no process is started, and
  the result is the same whatever \<open>nvidia-smi\<close> would do.
\<close>

theorem macos_videotoolbox:
  assumes "platform_system h = ''Darwin''"
  shows "vcodec h True tr = (Inr ''h264_videotoolbox'', tr) \<and>
         vcodec (h\<lparr>subprocess := p\<rparr>) True tr = (Inr ''h264_videotoolbox'', tr) \<and>
         is_hardware_accelerated ''h264_videotoolbox''"
  using assms
  by (simp add: vcodec_def codec_to_use_def hw_codec_simps is_hardware_accelerated_def
      HW_ACCEL_CODECS_def)

text \<open>
  A macOS host.
\<close>

theorem macos_videotoolbox_witness:
  "vcodec \<lparr>platform_system = ''Darwin'', subprocess = (\<lambda>cmd. Inr 0),
            ffmpeg_run = (\<lambda>out. None)\<rparr> True [] = (Inr ''h264_videotoolbox'', [])"
proof -
  have s: "platform_system \<lparr>platform_system = ''Darwin'', subprocess = (\<lambda>cmd. Inr 0),
            ffmpeg_run = (\<lambda>out. None)\<rparr> = ''Darwin''"
    by simp
  from macos_videotoolbox [OF s, of "[]"] show ?thesis by simp
qed

text \<open>
  C8. Without \<open>use_gpu\<close> the codec is \<open>libx264\<close>, which is not an encoder of the hardware
  table, on every host; no process is started.
\<close>

theorem cpu_libx264:
  "vcodec h False tr = (Inr ''libx264'', tr) \<and> \<not> is_hardware_accelerated ''libx264''"
  by (simp add: vcodec_def is_hardware_accelerated_def HW_ACCEL_CODECS_def)

text \<open>
  A Linux host with an NVIDIA device.
\<close>

theorem cpu_libx264_witness:
  "vcodec \<lparr>platform_system = ''Linux'', subprocess = (\<lambda>cmd. Inr 0),
            ffmpeg_run = (\<lambda>out. None)\<rparr> False [] = (Inr ''libx264'', [])"
  using cpu_libx264 [of "\<lparr>platform_system = ''Linux'', subprocess = (\<lambda>cmd. Inr 0),
            ffmpeg_run = (\<lambda>out. None)\<rparr>" "[]"]
  by simp

text \<open>
  C9. For a request that passes the validation and includes audio, the second stream
  of the output is the audio chain; it is the \<open>concat\<close> of the forward audio followed by
  the reversed audio, with at most an \<open>atempo\<close> on top, and it contains no \<open>xfade\<close>, also
  when the video chain has its \<open>xfade\<close>.
\<close>

theorem audio_join_is_concat:
  assumes "validate r = Inr r" and "include_audio r"
  shows "map_sum id (\<lambda>g. fst g ! 1) (graph r) = Inr (final_audio r) \<and>
         (final_audio r = joined_audio r \<or>
          final_audio r = Filter [joined_audio r] ''atempo'' [PyFloat (speed r)] []) \<and>
         joined_audio r =
           Concat [Select (input_stream r) ''a'',
                   Filter [Select (input_stream r) ''a''] ''areverse'' [] []]
             [(''v'', PyInt 0), (''a'', PyInt 1)] \<and>
         filters_named ''concat'' (final_audio r) =
           [(''concat'', [], [(''v'', PyInt 0), (''a'', PyInt 1)])] \<and>
         filters_named ''xfade'' (final_audio r) = [] \<and>
         (py_gt (fade_duration r) (Fin 0) \<and> py_gt (duration r) (fade_duration r) \<longrightarrow>
            filters_named ''xfade'' (joined_video r) =
              [(''xfade'', [], [(''transition'', PyStr ''fade''),
                                (''duration'', PyFloat (fade_duration r)),
                                (''offset'', PyFloat (py_sub (duration r) (fade_duration r)))])])"
proof -
  from validated_speed [OF assms(1)] obtain f where f: "py_truediv (Fin 1) (speed r) = Inr f"
    by blast
  have g: "map_sum id (\<lambda>g. fst g ! 1) (graph r) = Inr (final_audio r)"
    using assms(2) by (simp add: graph_valid [OF assms(1) f])
  have j: "joined_audio r =
           Concat [Select (input_stream r) ''a'',
                   Filter [Select (input_stream r) ''a''] ''areverse'' [] []]
             [(''v'', PyInt 0), (''a'', PyInt 1)]"
    by (simp add: joined_audio_def forward_audio_def reverse_audio_def audio_stream_def)
  have fa: "final_audio r = joined_audio r \<or>
          final_audio r = Filter [joined_audio r] ''atempo'' [PyFloat (speed r)] []"
    by (simp add: final_audio_def)
  have c: "filters_named ''concat'' (final_audio r) =
           [(''concat'', [], [(''v'', PyInt 0), (''a'', PyInt 1)])]"
    by (simp add: final_audio_def j input_stream_def filters_named_def)
  have x: "filters_named ''xfade'' (final_audio r) = []"
    by (simp add: final_audio_def j input_stream_def filters_named_def)
  have xv: "py_gt (fade_duration r) (Fin 0) \<and> py_gt (duration r) (fade_duration r) \<longrightarrow>
            filters_named ''xfade'' (joined_video r) =
              [(''xfade'', [], [(''transition'', PyStr ''fade''),
                                (''duration'', PyFloat (fade_duration r)),
                                (''offset'', PyFloat (py_sub (duration r) (fade_duration r)))])]"
    by (simp add: joined_video_def filters_named_def forward_video_def
        reverse_video_def video_stream_def input_stream_def)
  from g j fa c x xv show ?thesis by blast
qed

text \<open>
  A request with a fade of 0.3 and audio.
\<close>

theorem audio_join_is_concat_witness:
  "validate ((default_request ''in.mp4'' ''out.mp4'')\<lparr>fade_duration := Fin 0.3, include_audio := True\<rparr>) =
     Inr ((default_request ''in.mp4'' ''out.mp4'')\<lparr>fade_duration := Fin 0.3, include_audio := True\<rparr>) \<and>
   include_audio ((default_request ''in.mp4'' ''out.mp4'')\<lparr>fade_duration := Fin 0.3, include_audio := True\<rparr>) \<and>
   filters_named ''xfade''
     (final_audio ((default_request ''in.mp4'' ''out.mp4'')\<lparr>fade_duration := Fin 0.3, include_audio := True\<rparr>)) = [] \<and>
   filters_named ''xfade''
     (joined_video ((default_request ''in.mp4'' ''out.mp4'')\<lparr>fade_duration := Fin 0.3, include_audio := True\<rparr>)) =
     [(''xfade'', [], [(''transition'', PyStr ''fade''), (''duration'', PyFloat (Fin 0.3)),
                       (''offset'', PyFloat (Fin 2.7))])]"
proof -
  have h: "validate ((default_request ''in.mp4'' ''out.mp4'')\<lparr>fade_duration := Fin 0.3, include_audio := True\<rparr>) =
     Inr ((default_request ''in.mp4'' ''out.mp4'')\<lparr>fade_duration := Fin 0.3, include_audio := True\<rparr>)"
    by (simp add: validate_def default_request_def py_cmp_defs)
  have a: "include_audio ((default_request ''in.mp4'' ''out.mp4'')\<lparr>fade_duration := Fin 0.3, include_audio := True\<rparr>)"
    by (simp add: default_request_def)
  from audio_join_is_concat [OF h a]
  have "filters_named ''xfade''
     (final_audio ((default_request ''in.mp4'' ''out.mp4'')\<lparr>fade_duration := Fin 0.3, include_audio := True\<rparr>)) = []"
    and "py_gt (fade_duration ((default_request ''in.mp4'' ''out.mp4'')\<lparr>fade_duration := Fin 0.3, include_audio := True\<rparr>)) (Fin 0) \<and>
      py_gt (duration ((default_request ''in.mp4'' ''out.mp4'')\<lparr>fade_duration := Fin 0.3, include_audio := True\<rparr>))
        (fade_duration ((default_request ''in.mp4'' ''out.mp4'')\<lparr>fade_duration := Fin 0.3, include_audio := True\<rparr>)) \<longrightarrow>
     filters_named ''xfade''
     (joined_video ((default_request ''in.mp4'' ''out.mp4'')\<lparr>fade_duration := Fin 0.3, include_audio := True\<rparr>)) =
     [(''xfade'', [], [(''transition'', PyStr ''fade''),
        (''duration'', PyFloat (fade_duration ((default_request ''in.mp4'' ''out.mp4'')\<lparr>fade_duration := Fin 0.3, include_audio := True\<rparr>))),
        (''offset'', PyFloat (py_sub (duration ((default_request ''in.mp4'' ''out.mp4'')\<lparr>fade_duration := Fin 0.3, include_audio := True\<rparr>))
            (fade_duration ((default_request ''in.mp4'' ''out.mp4'')\<lparr>fade_duration := Fin 0.3, include_audio := True\<rparr>))))])]"
    by blast+
  with h a show ?thesis by (simp add: default_request_def py_cmp_defs)
qed

text \<open>
  C10. For a request that passes the validation and includes audio: at speed 1.0 the
  audio chain has no \<open>atempo\<close>; at any other speed it has exactly one, at the top, whose
  argument is the speed itself, however large.
\<close>

theorem audio_tempo_single:
  assumes "validate r = Inr r" and "include_audio r"
  shows "map_sum id (\<lambda>g. fst g ! 1) (graph r) = Inr (final_audio r) \<and>
         (py_eq (speed r) (Fin 1.0) \<longrightarrow>
            final_audio r = joined_audio r \<and> filters_named ''atempo'' (final_audio r) = []) \<and>
         (py_ne (speed r) (Fin 1.0) \<longrightarrow>
            final_audio r = Filter [joined_audio r] ''atempo'' [PyFloat (speed r)] [] \<and>
            filters_named ''atempo'' (final_audio r) = [(''atempo'', [PyFloat (speed r)], [])])"
proof -
  from validated_speed [OF assms(1)] obtain f where f: "py_truediv (Fin 1) (speed r) = Inr f"
    by blast
  have g: "map_sum id (\<lambda>g. fst g ! 1) (graph r) = Inr (final_audio r)"
    using assms(2) by (simp add: graph_valid [OF assms(1) f])
  have n: "filters_named ''atempo'' (joined_audio r) = []"
    by (simp add: joined_audio_def forward_audio_def reverse_audio_def audio_stream_def
        input_stream_def filters_named_def)
  have s: "filters_named ''atempo'' (Filter [joined_audio r] ''atempo'' [PyFloat (speed r)] []) =
       (''atempo'', [PyFloat (speed r)], []) # filters_named ''atempo'' (joined_audio r)"
    by (simp add: filters_named_def)
  from g n s show ?thesis by (simp add: final_audio_def py_ne_def)
qed

text \<open>
  A speed of 150, above the range of one \<open>atempo\<close> stage.
\<close>

theorem audio_tempo_single_witness:
  "validate ((default_request ''in.mp4'' ''out.mp4'')\<lparr>speed := Fin 150, include_audio := True\<rparr>) =
     Inr ((default_request ''in.mp4'' ''out.mp4'')\<lparr>speed := Fin 150, include_audio := True\<rparr>) \<and>
   include_audio ((default_request ''in.mp4'' ''out.mp4'')\<lparr>speed := Fin 150, include_audio := True\<rparr>) \<and>
   py_gt (speed ((default_request ''in.mp4'' ''out.mp4'')\<lparr>speed := Fin 150, include_audio := True\<rparr>))
     (Fin 100) \<and>
   filters_named ''atempo''
     (final_audio ((default_request ''in.mp4'' ''out.mp4'')\<lparr>speed := Fin 150, include_audio := True\<rparr>)) =
     [(''atempo'', [PyFloat (Fin 150)], [])]"
proof -
  have h: "validate ((default_request ''in.mp4'' ''out.mp4'')\<lparr>speed := Fin 150, include_audio := True\<rparr>) =
     Inr ((default_request ''in.mp4'' ''out.mp4'')\<lparr>speed := Fin 150, include_audio := True\<rparr>)"
    by (simp add: validate_def default_request_def py_cmp_defs)
  have a: "include_audio ((default_request ''in.mp4'' ''out.mp4'')\<lparr>speed := Fin 150, include_audio := True\<rparr>)"
    by (simp add: default_request_def)
  from audio_tempo_single [OF h a]
  have "py_ne (speed ((default_request ''in.mp4'' ''out.mp4'')\<lparr>speed := Fin 150, include_audio := True\<rparr>)) (Fin 1.0) \<longrightarrow>
     filters_named ''atempo''
       (final_audio ((default_request ''in.mp4'' ''out.mp4'')\<lparr>speed := Fin 150, include_audio := True\<rparr>)) =
     [(''atempo'',
       [PyFloat (speed ((default_request ''in.mp4'' ''out.mp4'')\<lparr>speed := Fin 150, include_audio := True\<rparr>))],
       [])]"
    by blast
  with h a show ?thesis by (simp add: default_request_def py_cmp_defs)
qed

end
